theory Spec2Isabelle
  imports Main "HOL-Library.Word"
begin

section \<open>Strings of the page\<close>

text \<open>
  A JavaScript string is a sequence of 16-bit code units. The zero-width characters that
  the form strips (U+200B to U+200D, U+FEFF) do not fit into an 8-bit \<open>char\<close>, so the
  strings of the page are lists of 16-bit words. \<open>js\<close> embeds an ASCII literal of the
  source.
\<close>

type_synonym jsstring = "16 word list"

definition js :: "string \<Rightarrow> jsstring" where
  "js s = map (\<lambda>c. of_char c) s"

text \<open>
  The code units that \<open>String.prototype.trim\<close> and the leading-blank skipping of
  \<open>Number.parseInt\<close> remove: ECMAScript's WhiteSpace (TAB, VT, FF, U+FEFF and the space
  separators) and LineTerminator (LF, CR, U+2028, U+2029).
\<close>

definition isWhiteSpace :: "16 word \<Rightarrow> bool" where
  "isWhiteSpace c =
     (c = 0x0009 \<or> c = 0x000A \<or> c = 0x000B \<or> c = 0x000C \<or> c = 0x000D \<or> c = 0x0020
      \<or> c = 0x00A0 \<or> c = 0x1680 \<or> (0x2000 \<le> c \<and> c \<le> 0x200A)
      \<or> c = 0x2028 \<or> c = 0x2029 \<or> c = 0x202F \<or> c = 0x205F \<or> c = 0x3000
      \<or> c = 0xFEFF)"

definition trim :: "jsstring \<Rightarrow> jsstring" where
  "trim s = rev (dropWhile isWhiteSpace (rev (dropWhile isWhiteSpace s)))"

text \<open>
  The class of the form's regular expression: the code units U+200B to U+200D and U+FEFF.
\<close>

definition isZeroWidth :: "16 word \<Rightarrow> bool" where
  "isZeroWidth c = ((0x200B \<le> c \<and> c \<le> 0x200D) \<or> c = 0xFEFF)"

text \<open>
  \<open>x.trim().replace(zw, "")\<close>, where \<open>zw\<close> is the global expression of that class: trim
  first, then delete every match.
\<close>

definition sanitized :: "jsstring \<Rightarrow> jsstring" where
  "sanitized x = filter (\<lambda>c. \<not> isZeroWidth c) (trim x)"

text \<open>\<open>m.includes(sub)\<close>: \<open>sub\<close> occurs in \<open>m\<close> as a contiguous run of code units.\<close>

fun startsWith :: "jsstring \<Rightarrow> jsstring \<Rightarrow> bool" where
  "startsWith m [] = True"
| "startsWith [] (c # sub) = False"
| "startsWith (d # m) (c # sub) = (d = c \<and> startsWith m sub)"

fun includes_str :: "jsstring \<Rightarrow> jsstring \<Rightarrow> bool" where
  "includes_str [] sub = (sub = [])"
| "includes_str (d # m) sub = (startsWith (d # m) sub \<or> includes_str m sub)"

subsection \<open>Number.parseInt without a radix\<close>

text \<open>
  The value of a digit or letter as a digit, if it is one: \<open>0\<close> to \<open>9\<close>, then \<open>a\<close> to
  \<open>z\<close> and \<open>A\<close> to \<open>Z\<close> from ten upwards.
\<close>

definition digitValue :: "16 word \<Rightarrow> nat option" where
  "digitValue c =
     (if 0x30 \<le> c \<and> c \<le> 0x39 then Some (unat c - 48)
      else if 0x61 \<le> c \<and> c \<le> 0x7A then Some (unat c - 87)
      else if 0x41 \<le> c \<and> c \<le> 0x5A then Some (unat c - 55)
      else None)"

definition isRadixDigit :: "nat \<Rightarrow> 16 word \<Rightarrow> bool" where
  "isRadixDigit R c = (case digitValue c of None \<Rightarrow> False | Some d \<Rightarrow> d < R)"

definition digitsValue :: "nat \<Rightarrow> jsstring \<Rightarrow> nat" where
  "digitsValue R Z =
     foldl (\<lambda>acc c. acc * R + (case digitValue c of None \<Rightarrow> 0 | Some d \<Rightarrow> d)) 0 Z"

text \<open>
  \<open>Number.parseInt(s)\<close> as ECMAScript defines it for an absent radix: skip leading white
  space, read a sign, read a \<open>0x\<close> or \<open>0X\<close> prefix (radix 16, otherwise 10), take the
  longest run of digits of the radix; no digit gives NaN, here \<open>None\<close>. The result is the
  mathematical integer: the page only compares it with 0 and 150 and passes it on when
  it lies in between, where the rounding to a double changes nothing.
\<close>

definition parseInt :: "jsstring \<Rightarrow> int option" where
  "parseInt s =
     (let S = dropWhile isWhiteSpace s;
          sign = (case S of [] \<Rightarrow> 1 | c # _ \<Rightarrow> if c = 0x2D then - 1 else (1::int));
          S1 = (case S of [] \<Rightarrow> [] | c # r \<Rightarrow> if c = 0x2D \<or> c = 0x2B then r else S);
          hex = (case S1 of a # b # _ \<Rightarrow> a = 0x30 \<and> (b = 0x78 \<or> b = 0x58) | _ \<Rightarrow> False);
          R = (if hex then 16 else 10);
          S2 = (if hex then drop 2 S1 else S1);
          Z = takeWhile (isRadixDigit R) S2
      in if Z = [] then None else Some (sign * int (digitsValue R Z)))"

text \<open>
  \<open>Number(x)\<close> for a \<open>uint256\<close> that the contract returns as a bigint: the nearest double,
  ties to even. A \<open>uint256\<close> is far below the largest double, so the result is again a
  natural number; below \<open>2^53\<close> it is \<open>x\<close> itself.
\<close>

fun bitLength :: "nat \<Rightarrow> nat" where
  "bitLength n = (if n = 0 then 0 else Suc (bitLength (n div 2)))"

definition Number_of :: "nat \<Rightarrow> nat" where
  "Number_of x =
     (if x < 2 ^ 53 then x
      else let e = bitLength x - 53; q = x div 2 ^ e; r = x mod 2 ^ e; h = 2 ^ (e - 1)
           in (if h < r \<or> (r = h \<and> odd q) then q + 1 else q) * 2 ^ e)"

section \<open>The state of the page\<close>

text \<open>
  The component \<open>UserInfoDApp\<close> keeps its state in \<open>useState\<close> cells; the record below has
  one field per cell, with the cell's name. \<open>null\<close> is \<open>None\<close>. The fields of the form
  carry the prefix \<open>f\<close>, since \<open>UserData\<close> has fields of the same names.
\<close>

record UserData =
  name :: jsstring
  age :: nat
  profession :: jsstring
  bio :: jsstring

record FormData =
  fname :: jsstring
  fage :: jsstring
  fprofession :: jsstring
  fbio :: jsstring

text \<open>
  The handles of ethers are opaque to the page: a signer is known by the account it signs
  for, a contract by the signer it was made with (address and ABI are constants).
\<close>

datatype provider = BrowserProvider
datatype signer = JsonRpcSigner jsstring
datatype contract = Contract signer

record state =
  account :: jsstring
  contract :: "contract option"
  provider :: "provider option"
  signer :: "signer option"
  loading :: bool
  error :: jsstring
  success :: jsstring
  formData :: FormData
  currentUserData :: "UserData option"
  searchAddress :: jsstring
  searchedUserData :: "UserData option"

definition emptyForm :: FormData where
  "emptyForm = \<lparr>fname = [], fage = [], fprofession = [], fbio = []\<rparr>"

definition initial :: state where
  "initial = \<lparr>account = [], contract = None, provider = None, signer = None,
     loading = False, error = [], success = [], formData = emptyForm,
     currentUserData = None, searchAddress = [], searchedUserData = None\<rparr>"

section \<open>The world outside the page\<close>

text \<open>
  What a handler asks of the wallet and of the contract is recorded as a list of calls, in
  the order they are made; what the world answers is an argument of the handler.
\<close>

datatype call =
    EthRequestAccounts
  | GetSigner
  | CallAddUserInfo jsstring int jsstring jsstring
  | TxWait
  | CallGetUserInfo jsstring

text \<open>
  A thrown error, as far as the handlers look at it: \<open>err.code\<close>, \<open>err.message\<close> and
  \<open>err.reason\<close>, each possibly \<open>undefined\<close>.
\<close>

record js_error =
  code :: "jsstring option"
  message :: "jsstring option"
  reason :: "jsstring option"

text \<open>
  The answer of \<open>getUserInfo\<close> for an address: it throws, or it returns the four values of
  the contract's record.
\<close>

type_synonym read_env = "jsstring \<Rightarrow> js_error + (jsstring \<times> nat \<times> jsstring \<times> jsstring)"

text \<open>
  The answer of the wallet to \<open>connectWallet\<close>: there is no \<open>window.ethereum\<close>; the request
  for accounts throws; \<open>getSigner\<close> throws; or both succeed, with \<open>accounts[0]\<close> and the
  signer (\<open>getSigner\<close> throws when the wallet exposes no account, so on this path
  \<open>accounts[0]\<close> exists).
\<close>

datatype wallet_env =
    NoEthereum
  | RequestAccountsFails js_error
  | GetSignerFails js_error
  | Granted jsstring signer

text \<open>
  The fate of the transaction of \<open>addUserInfo\<close>: sending it throws, waiting for the
  receipt throws, or the receipt arrives.
\<close>

datatype tx_env = SendFails js_error | WaitFails js_error | Confirmed

section \<open>The handlers\<close>

text \<open>An interpolation \<open>${x}\<close> of a possibly undefined string.\<close>

definition interpolate :: "jsstring option \<Rightarrow> jsstring" where
  "interpolate x = (case x of None \<Rightarrow> js ''undefined'' | Some m \<Rightarrow> m)"

text \<open>\<open>a || b\<close> on possibly undefined strings: \<open>a\<close> unless it is undefined or empty.\<close>

definition orElse :: "jsstring option \<Rightarrow> jsstring \<Rightarrow> jsstring" where
  "orElse a b = (case a of None \<Rightarrow> b | Some m \<Rightarrow> if m = [] then b else m)"

definition userInfoOf :: "jsstring \<times> nat \<times> jsstring \<times> jsstring \<Rightarrow> UserData option" where
  "userInfoOf userData =
     (case userData of (n, a, p, b) \<Rightarrow>
        if n \<noteq> [] then Some \<lparr>name = n, age = Number_of a, profession = p, bio = b\<rparr>
        else None)"

text \<open>
  \<open>loadUserDataForCurrentUser(userAddress, contractInstance?)\<close>: without a contract it
  returns at once; a read that throws and a record with an empty name both end in
  \<open>setCurrentUserData(null)\<close>.
\<close>

definition loadUserDataForCurrentUser ::
  "read_env \<Rightarrow> jsstring \<Rightarrow> contract option \<Rightarrow> state \<Rightarrow> state \<times> call list" where
  "loadUserDataForCurrentUser rd userAddress contractInstance s =
     (case (case contractInstance of Some c \<Rightarrow> Some c | None \<Rightarrow> contract s) of
        None \<Rightarrow> (s, [])
      | Some contractToUse \<Rightarrow>
          (case rd userAddress of
             Inl err \<Rightarrow> (s\<lparr>currentUserData := None\<rparr>, [CallGetUserInfo userAddress])
           | Inr userData \<Rightarrow>
               (s\<lparr>currentUserData := userInfoOf userData\<rparr>, [CallGetUserInfo userAddress])))"

text \<open>
  \<open>loadUserData(address)\<close>, the loader of the search. \<open>isAddress\<close> is \<open>ethers.isAddress\<close>,
  a function of the library, taken as a parameter.
\<close>

definition loadUserData ::
  "(jsstring \<Rightarrow> bool) \<Rightarrow> read_env \<Rightarrow> jsstring \<Rightarrow> state \<Rightarrow> state \<times> call list" where
  "loadUserData isAddress rd address s =
     (if contract s = None then (s, [])
      else if \<not> isAddress address then (s, [])
      else (case rd address of
              Inl err \<Rightarrow> (s\<lparr>searchedUserData := None\<rparr>, [CallGetUserInfo address])
            | Inr userData \<Rightarrow>
                (s\<lparr>searchedUserData := userInfoOf userData\<rparr>, [CallGetUserInfo address])))"

text \<open>
  \<open>searchUser\<close>. \<open>loadUserData\<close> catches whatever it throws, so the \<open>catch\<close> of
  \<open>searchUser\<close> is never entered; the \<open>finally\<close> resets \<open>loading\<close>.
\<close>

definition searchUser :: "(jsstring \<Rightarrow> bool) \<Rightarrow> read_env \<Rightarrow> state \<Rightarrow> state \<times> call list" where
  "searchUser isAddress rd s =
     (if contract s = None \<or> searchAddress s = [] then (s, [])
      else if \<not> isAddress (searchAddress s) then
        (s\<lparr>error := js ''Please enter a valid Ethereum address''\<rparr>, [])
      else
        (case loadUserData isAddress rd (searchAddress s)
                (s\<lparr>loading := True, error := [], searchedUserData := None\<rparr>) of
           (s', calls) \<Rightarrow> (s'\<lparr>loading := False\<rparr>, calls)))"

text \<open>\<open>connectWallet\<close>.\<close>

definition connectWallet :: "wallet_env \<Rightarrow> read_env \<Rightarrow> state \<Rightarrow> state \<times> call list" where
  "connectWallet w rd s =
     (case w of
        NoEthereum \<Rightarrow>
          (s\<lparr>error := js ''Please install MetaMask to use this application''\<rparr>, [])
      | RequestAccountsFails err \<Rightarrow>
          (s\<lparr>error := js ''Failed to connect wallet: '' @ interpolate (message err)\<rparr>,
           [EthRequestAccounts])
      | GetSignerFails err \<Rightarrow>
          (s\<lparr>error := js ''Failed to connect wallet: '' @ interpolate (message err)\<rparr>,
           [EthRequestAccounts, GetSigner])
      | Granted account0 sg \<Rightarrow>
          (case loadUserDataForCurrentUser rd account0 (Some (Contract sg))
                  (s\<lparr>provider := Some BrowserProvider, signer := Some sg,
                     contract := Some (Contract sg), account := account0,
                     error := [], success := js ''Wallet connected successfully!''\<rparr>) of
             (s', calls) \<Rightarrow> (s', [EthRequestAccounts, GetSigner] @ calls)))"

text \<open>\<open>disconnectWallet\<close>.\<close>

definition disconnectWallet :: "state \<Rightarrow> state \<times> call list" where
  "disconnectWallet s =
     (s\<lparr>provider := None, signer := None, contract := None, account := [],
        currentUserData := None, searchedUserData := None, searchAddress := [],
        formData := emptyForm, error := [],
        success := js ''Wallet disconnected successfully!''\<rparr>, [])"

text \<open>The \<open>catch\<close> of \<open>addUserInfo\<close>: the message for a thrown error.\<close>

definition txErrorMessage :: "js_error \<Rightarrow> jsstring" where
  "txErrorMessage err =
     (if code err = Some (js ''INVALID_ARGUMENT'') then
        js ''Invalid input data. Please check your entries and try again.''
      else if code err = Some (js ''UNPREDICTABLE_GAS_LIMIT'') then
        js ''Transaction failed. Please check your inputs and try again.''
      else if (case message err of None \<Rightarrow> False
               | Some m \<Rightarrow> includes_str m (js ''user rejected'')) then
        js ''Transaction was rejected by user''
      else if (case message err of None \<Rightarrow> False
               | Some m \<Rightarrow> includes_str m (js ''insufficient funds'')) then
        js ''Insufficient funds to complete the transaction''
      else js ''Failed to add user info: ''
             @ orElse (reason err) (orElse (message err) (js ''Unknown error'')))"

text \<open>
  \<open>addUserInfo\<close>. The checks come in the order of the source; each failed check sets its
  message and returns. Past them, \<open>loading\<close> is set and \<open>error\<close> cleared, the transaction
  is sent and awaited; the \<open>finally\<close> resets \<open>loading\<close> on every path.
\<close>

definition addUserInfo :: "tx_env \<Rightarrow> read_env \<Rightarrow> state \<Rightarrow> state \<times> call list" where
  "addUserInfo tx rd s =
     (if contract s = None \<or> signer s = None then
        (s\<lparr>error := js ''Please connect your wallet first''\<rparr>, [])
      else
        let sanitizedName = sanitized (fname (formData s));
            sanitizedProfession = sanitized (fprofession (formData s));
            sanitizedBio = sanitized (fbio (formData s))
        in if sanitizedName = [] then (s\<lparr>error := js ''Name cannot be empty''\<rparr>, [])
           else if sanitizedProfession = [] then
             (s\<lparr>error := js ''Profession cannot be empty''\<rparr>, [])
           else if sanitizedBio = [] then (s\<lparr>error := js ''Bio cannot be empty''\<rparr>, [])
           else
             (case parseInt (fage (formData s)) of
                None \<Rightarrow> (s\<lparr>error := js ''Please enter a valid age between 1 and 150''\<rparr>, [])
              | Some age' \<Rightarrow>
                  if age' \<le> 0 \<or> age' > 150 then
                    (s\<lparr>error := js ''Please enter a valid age between 1 and 150''\<rparr>, [])
                  else
                    let send = CallAddUserInfo sanitizedName age' sanitizedProfession sanitizedBio;
                        s1 = s\<lparr>loading := True, error := []\<rparr>
                    in (case tx of
                          SendFails err \<Rightarrow>
                            (s1\<lparr>error := txErrorMessage err, loading := False\<rparr>, [send])
                        | WaitFails err \<Rightarrow>
                            (s1\<lparr>error := txErrorMessage err, loading := False\<rparr>,
                             [send, TxWait])
                        | Confirmed \<Rightarrow>
                            (case loadUserDataForCurrentUser rd (account s) None
                                    (s1\<lparr>success := js ''User information added successfully!''\<rparr>) of
                               (s', calls) \<Rightarrow>
                                 (s'\<lparr>formData := emptyForm, loading := False\<rparr>,
                                  [send, TxWait] @ calls)))))"

section \<open>The message timer\<close>

text \<open>
  The effect \<open>useEffect(f, [error, success])\<close> runs after a render in which \<open>error\<close> or
  \<open>success\<close> differs from the render before; React first runs the cleanup of the previous
  run (\<open>clearTimeout\<close>), then \<open>f\<close>, which starts a timer of 5000 ms when one of the two is
  not empty. After a render that leaves both as they were, nothing runs and a pending
  timer stays. A page is the state last rendered and the time at which the pending timer
  fires, if one is pending; time is counted in milliseconds.
\<close>

record page =
  shown :: state
  timer :: "nat option"

definition render :: "nat \<Rightarrow> page \<Rightarrow> state \<Rightarrow> page" where
  "render now p s' =
     (if error s' = error (shown p) \<and> success s' = success (shown p) then
        \<lparr>shown = s', timer = timer p\<rparr>
      else
        \<lparr>shown = s',
         timer = (if error s' \<noteq> [] \<or> success s' \<noteq> [] then Some (now + 5000) else None)\<rparr>)"

text \<open>The callback of the timer: \<open>setError("")\<close> and \<open>setSuccess("")\<close>.\<close>

definition clearMessages :: "state \<Rightarrow> state" where
  "clearMessages s = s\<lparr>error := [], success := []\<rparr>"

text \<open>
  The passing of time up to \<open>now\<close>: a pending timer whose time has come fires once, its
  callback runs and the page renders.
\<close>

definition elapse :: "nat \<Rightarrow> page \<Rightarrow> page" where
  "elapse now p =
     (case timer p of
        None \<Rightarrow> p
      | Some t \<Rightarrow>
          if now < t then p
          else render now (p\<lparr>timer := None\<rparr>) (clearMessages (shown p)))"

section \<open>The page as a transition system\<close>

text \<open>
  What can happen to the page: a click on one of its buttons together with the answers of
  the world, a keystroke in one of its inputs, or the timer's callback.
\<close>

datatype event =
    ConnectWallet wallet_env read_env
  | DisconnectWallet
  | AddUserInfo tx_env read_env
  | SearchUser read_env
  | ChangeName jsstring
  | ChangeAge jsstring
  | ChangeProfession jsstring
  | ChangeBio jsstring
  | ChangeSearchAddress jsstring
  | MessageTimeout

definition step :: "(jsstring \<Rightarrow> bool) \<Rightarrow> state \<Rightarrow> event \<Rightarrow> state" where
  "step isAddress s e =
     (case e of
        ConnectWallet w rd \<Rightarrow> fst (connectWallet w rd s)
      | DisconnectWallet \<Rightarrow> fst (disconnectWallet s)
      | AddUserInfo tx rd \<Rightarrow> fst (addUserInfo tx rd s)
      | SearchUser rd \<Rightarrow> fst (searchUser isAddress rd s)
      | ChangeName v \<Rightarrow> s\<lparr>formData := (formData s)\<lparr>fname := v\<rparr>\<rparr>
      | ChangeAge v \<Rightarrow> s\<lparr>formData := (formData s)\<lparr>fage := v\<rparr>\<rparr>
      | ChangeProfession v \<Rightarrow> s\<lparr>formData := (formData s)\<lparr>fprofession := v\<rparr>\<rparr>
      | ChangeBio v \<Rightarrow> s\<lparr>formData := (formData s)\<lparr>fbio := v\<rparr>\<rparr>
      | ChangeSearchAddress v \<Rightarrow> s\<lparr>searchAddress := v\<rparr>
      | MessageTimeout \<Rightarrow> clearMessages s)"

definition run :: "(jsstring \<Rightarrow> bool) \<Rightarrow> event list \<Rightarrow> state" where
  "run isAddress es = foldl (step isAddress) initial es"

section \<open>The validity of a form in the words of the specification\<close>

text \<open>
  Name, profession and bio are not empty after sanitation, and the age parses as an
  integer from 1 to 150.
\<close>

definition spec_valid :: "FormData \<Rightarrow> bool" where
  "spec_valid f =
     (sanitized (fname f) \<noteq> [] \<and> sanitized (fprofession f) \<noteq> [] \<and> sanitized (fbio f) \<noteq> []
      \<and> (case parseInt (fage f) of None \<Rightarrow> False | Some a \<Rightarrow> 1 \<le> a \<and> a \<le> 150))"

section \<open>Sample data for concrete runs\<close>

text \<open>
  An instance of \<open>isAddress\<close> for concrete runs: the shape that ethers tests first, an
  optional \<open>0x\<close> and forty hexadecimal digits. (The library goes on to compare the checksum
  of an address of mixed case and to try the ICAP format; no run below depends on either.)
\<close>

definition isHexDigit :: "16 word \<Rightarrow> bool" where
  "isHexDigit c =
     ((0x30 \<le> c \<and> c \<le> 0x39) \<or> (0x61 \<le> c \<and> c \<le> 0x66) \<or> (0x41 \<le> c \<and> c \<le> 0x46))"

definition hexAddress :: "jsstring \<Rightarrow> bool" where
  "hexAddress a =
     (let digits = (if startsWith a (js ''0x'') then drop 2 a else a)
      in length digits = 40 \<and> list_all isHexDigit digits)"

definition alice :: jsstring where
  "alice = js ''0x00000000000000000000000000000000000a11ce''"

definition bob :: jsstring where
  "bob = js ''0x0000000000000000000000000000000000000b0b''"

text \<open>A contract without records, one that holds Ada's record for every address, and one whose read throws.\<close>

definition noRecords :: read_env where
  "noRecords a = Inr ([], 0, [], [])"

definition adaRecords :: read_env where
  "adaRecords a = Inr (js ''Ada'', 36, js ''Engineer'', js ''Writes programs'')"

definition networkDown :: js_error where
  "networkDown = \<lparr>code = Some (js ''NETWORK_ERROR''), message = Some (js ''could not detect network''),
     reason = None\<rparr>"

definition readThrows :: read_env where
  "readThrows a = Inl networkDown"

definition userRejected :: js_error where
  "userRejected = \<lparr>code = Some (js ''ACTION_REJECTED''),
     message = Some (js ''user rejected action''), reason = Some (js ''rejected'')\<rparr>"

text \<open>The page after Alice has connected, and the same page with a form typed in.\<close>

definition aliceConnected :: state where
  "aliceConnected = fst (connectWallet (Granted alice (JsonRpcSigner alice)) noRecords initial)"

definition adaForm :: FormData where
  "adaForm = \<lparr>fname = js '' Ada '', fage = js ''36'', fprofession = 0x200B # js ''Engineer'',
     fbio = js ''Writes programs''\<rparr>"

definition blankNameForm :: FormData where
  "blankNameForm = \<lparr>fname = js '' '', fage = js ''36'', fprofession = js ''Engineer'',
     fbio = js ''Writes programs''\<rparr>"

text \<open>
  A page on which Alice is connected, no message is shown, no timer is pending and the
  name typed into the form is a single blank; and a click on the submit button at a given
  time. With that form \<open>addUserInfo\<close> returns from its first check, before anything is
  awaited, so the click is followed by one render.
\<close>

definition quietPage :: page where
  "quietPage = \<lparr>shown = clearMessages (aliceConnected\<lparr>formData := blankNameForm\<rparr>), timer = None\<rparr>"

definition submitAt :: "nat \<Rightarrow> page \<Rightarrow> page" where
  "submitAt now p = render now p (fst (addUserInfo Confirmed noRecords (shown p)))"

section \<open>Facts about the helpers and the sample data\<close>

lemma Number_of_small: "x < 2 ^ 53 \<Longrightarrow> Number_of x = x"
  by (simp add: Number_of_def)

lemma js_nonempty [simp]: "js (c # cs) \<noteq> []"
  by (simp add: js_def)

lemma sanitized_no_zero_width: "list_all (\<lambda>c. \<not> isZeroWidth c) (sanitized x)"
  by (simp add: sanitized_def list_all_iff)

text \<open>
  The trimming comes before the deletion: a blank behind a leading zero-width space
  survives both.
\<close>

lemma sanitized_keeps_blank_behind_zero_width: "sanitized (0x200B # js '' a'') = js '' a''"
  by (simp add: js_def sanitized_def trim_def isWhiteSpace_def isZeroWidth_def)

lemma sample_eval:
  "contract (aliceConnected\<lparr>formData := f\<rparr>) = Some (Contract (JsonRpcSigner alice))"
  "signer (aliceConnected\<lparr>formData := f\<rparr>) = Some (JsonRpcSigner alice)"
  "account (aliceConnected\<lparr>formData := f\<rparr>) = alice"
  "formData (aliceConnected\<lparr>formData := f\<rparr>) = f"
  "error (aliceConnected\<lparr>formData := f\<rparr>) = []"
  "success (aliceConnected\<lparr>formData := f\<rparr>) = js ''Wallet connected successfully!''"
  "currentUserData (aliceConnected\<lparr>formData := f\<rparr>) = None"
  by (simp_all add: aliceConnected_def connectWallet_def loadUserDataForCurrentUser_def
      noRecords_def userInfoOf_def initial_def)

lemma adaForm_eval:
  "sanitized (fname adaForm) = js ''Ada''"
  "sanitized (fprofession adaForm) = js ''Engineer''"
  "sanitized (fbio adaForm) = js ''Writes programs''"
  "parseInt (fage adaForm) = Some 36"
  by (simp_all add: adaForm_def js_def sanitized_def trim_def isWhiteSpace_def isZeroWidth_def
      parseInt_def isRadixDigit_def digitValue_def digitsValue_def)

lemma addUserInfo_valid:
  assumes "contract s \<noteq> None" and "signer s \<noteq> None"
    and "sanitized (fname (formData s)) \<noteq> []"
    and "sanitized (fprofession (formData s)) \<noteq> []"
    and "sanitized (fbio (formData s)) \<noteq> []"
    and "parseInt (fage (formData s)) = Some a" and "1 \<le> a" and "a \<le> 150"
  shows "addUserInfo tx rd s =
     (let send = CallAddUserInfo (sanitized (fname (formData s))) a
                   (sanitized (fprofession (formData s))) (sanitized (fbio (formData s)))
      in case tx of
           SendFails err \<Rightarrow> (s\<lparr>loading := False, error := txErrorMessage err\<rparr>, [send])
         | WaitFails err \<Rightarrow> (s\<lparr>loading := False, error := txErrorMessage err\<rparr>, [send, TxWait])
         | Confirmed \<Rightarrow>
             (case loadUserDataForCurrentUser rd (account s) None
                     (s\<lparr>loading := True, error := [],
                        success := js ''User information added successfully!''\<rparr>) of
                (s', calls) \<Rightarrow>
                  (s'\<lparr>formData := emptyForm, loading := False\<rparr>, [send, TxWait] @ calls)))"
proof -
  from assms(1,2) obtain c sg where "contract s = Some c" and "signer s = Some sg"
    by auto
  with assms(3-) show ?thesis
    by (cases tx) (simp_all add: addUserInfo_def Let_def)
qed

lemma addUserInfo_invalid:
  assumes "contract s \<noteq> None" and "signer s \<noteq> None" and "\<not> spec_valid (formData s)"
  shows "\<exists>m \<in> {js ''Name cannot be empty'', js ''Profession cannot be empty'',
                js ''Bio cannot be empty'', js ''Please enter a valid age between 1 and 150''}.
           addUserInfo tx rd s = (s\<lparr>error := m\<rparr>, [])"
proof -
  from assms(1,2) obtain c sg where conn: "contract s = Some c" "signer s = Some sg"
    by auto
  show ?thesis
  proof (cases "parseInt (fage (formData s))")
    case None
    with conn show ?thesis by (simp add: addUserInfo_def Let_def)
  next
    case (Some a)
    with conn assms(3) show ?thesis
      by (auto simp: addUserInfo_def Let_def spec_valid_def)
  qed
qed

lemma spec_valid_parse:
  assumes "spec_valid f"
  obtains a where "parseInt (fage f) = Some a" and "1 \<le> a" and "a \<le> 150"
    and "sanitized (fname f) \<noteq> []" and "sanitized (fprofession f) \<noteq> []"
    and "sanitized (fbio f) \<noteq> []"
  using assms by (auto simp: spec_valid_def split: option.splits)

lemma loadUserDataForCurrentUser_calls:
  "contract s \<noteq> None \<or> ci \<noteq> None \<Longrightarrow>
     snd (loadUserDataForCurrentUser rd a ci s) = [CallGetUserInfo a]"
  by (auto simp: loadUserDataForCurrentUser_def split: option.splits sum.splits)

lemma blankNameForm_eval: "sanitized (fname blankNameForm) = []"
  by (simp add: blankNameForm_def js_def sanitized_def trim_def isWhiteSpace_def)

lemma spec_valid_adaForm: "spec_valid adaForm"
  by (simp add: spec_valid_def adaForm_eval)

lemma not_spec_valid_blankNameForm: "\<not> spec_valid blankNameForm"
  by (simp add: spec_valid_def blankNameForm_eval)

lemma startsWith_append: "startsWith (x @ y) x"
  by (induction x) simp_all

lemma txErrorMessage_nonempty: "txErrorMessage err \<noteq> []"
  by (simp add: txErrorMessage_def)

lemma txErrorMessage_classes:
  "txErrorMessage err
     \<in> {js ''Invalid input data. Please check your entries and try again.'',
         js ''Transaction failed. Please check your inputs and try again.'',
         js ''Transaction was rejected by user'',
         js ''Insufficient funds to complete the transaction''}
   \<or> startsWith (txErrorMessage err) (js ''Failed to add user info: '')"
  by (simp add: txErrorMessage_def startsWith_append)

lemma txErrorMessage_by_class:
  "(code err = Some (js ''INVALID_ARGUMENT'') \<longrightarrow>
      txErrorMessage err = js ''Invalid input data. Please check your entries and try again.'')"
  "(code err \<noteq> Some (js ''INVALID_ARGUMENT'')
      \<and> code err = Some (js ''UNPREDICTABLE_GAS_LIMIT'') \<longrightarrow>
      txErrorMessage err = js ''Transaction failed. Please check your inputs and try again.'')"
  "(code err \<noteq> Some (js ''INVALID_ARGUMENT'')
      \<and> code err \<noteq> Some (js ''UNPREDICTABLE_GAS_LIMIT'')
      \<and> (\<exists>m. message err = Some m \<and> includes_str m (js ''user rejected'')) \<longrightarrow>
      txErrorMessage err = js ''Transaction was rejected by user'')"
  "(code err \<noteq> Some (js ''INVALID_ARGUMENT'')
      \<and> code err \<noteq> Some (js ''UNPREDICTABLE_GAS_LIMIT'')
      \<and> \<not> (\<exists>m. message err = Some m \<and> includes_str m (js ''user rejected''))
      \<and> (\<exists>m. message err = Some m \<and> includes_str m (js ''insufficient funds'')) \<longrightarrow>
      txErrorMessage err = js ''Insufficient funds to complete the transaction'')"
  "(code err \<noteq> Some (js ''INVALID_ARGUMENT'')
      \<and> code err \<noteq> Some (js ''UNPREDICTABLE_GAS_LIMIT'')
      \<and> \<not> (\<exists>m. message err = Some m \<and> includes_str m (js ''user rejected''))
      \<and> \<not> (\<exists>m. message err = Some m \<and> includes_str m (js ''insufficient funds'')) \<longrightarrow>
      (\<forall>r. reason err = Some r \<and> r \<noteq> [] \<longrightarrow>
         txErrorMessage err = js ''Failed to add user info: '' @ r)
      \<and> (\<forall>m. (reason err = None \<or> reason err = Some []) \<and> message err = Some m \<and> m \<noteq> []
           \<longrightarrow> txErrorMessage err = js ''Failed to add user info: '' @ m)
      \<and> ((reason err = None \<or> reason err = Some [])
          \<and> (message err = None \<or> message err = Some []) \<longrightarrow>
           txErrorMessage err = js ''Failed to add user info: '' @ js ''Unknown error''))"
  by (auto simp: txErrorMessage_def orElse_def split: option.splits)

lemma userRejected_message: "txErrorMessage userRejected = js ''Transaction was rejected by user''"
  by (simp add: txErrorMessage_def userRejected_def js_def)

lemma hexAddress_samples:
  "hexAddress alice" "hexAddress bob" "\<not> hexAddress []" "\<not> hexAddress (js ''abc'')"
  by (simp_all add: hexAddress_def alice_def bob_def js_def isHexDigit_def)

lemma aliceConnected_eval:
  "contract aliceConnected = Some (Contract (JsonRpcSigner alice))"
  "signer aliceConnected = Some (JsonRpcSigner alice)"
  "account aliceConnected = alice"
  "searchAddress aliceConnected = []"
  "error aliceConnected = []"
  "success aliceConnected = js ''Wallet connected successfully!''"
  "currentUserData aliceConnected = None"
  "searchedUserData aliceConnected = None"
  "formData aliceConnected = emptyForm"
  "loading aliceConnected = False"
  by (simp_all add: aliceConnected_def connectWallet_def loadUserDataForCurrentUser_def
      noRecords_def userInfoOf_def initial_def)

lemma js_nonempty' [simp]: "[] \<noteq> js (c # cs)"
  by (simp add: js_def)

lemma alice_nonempty: "alice \<noteq> []" and bob_nonempty: "bob \<noteq> []"
  by (simp_all add: alice_def bob_def)

lemma userInfoOf_simps:
  "userInfoOf ([], a, p, b) = None"
  "n \<noteq> [] \<Longrightarrow> userInfoOf (n, a, p, b) = Some \<lparr>name = n, age = Number_of a, profession = p, bio = b\<rparr>"
  by (simp_all add: userInfoOf_def)

lemma loadUserDataForCurrentUser_frame:
  "account (fst (loadUserDataForCurrentUser rd x ci s)) = account s"
  "contract (fst (loadUserDataForCurrentUser rd x ci s)) = contract s"
  "provider (fst (loadUserDataForCurrentUser rd x ci s)) = provider s"
  "signer (fst (loadUserDataForCurrentUser rd x ci s)) = signer s"
  "loading (fst (loadUserDataForCurrentUser rd x ci s)) = loading s"
  "error (fst (loadUserDataForCurrentUser rd x ci s)) = error s"
  "success (fst (loadUserDataForCurrentUser rd x ci s)) = success s"
  "formData (fst (loadUserDataForCurrentUser rd x ci s)) = formData s"
  "searchAddress (fst (loadUserDataForCurrentUser rd x ci s)) = searchAddress s"
  "searchedUserData (fst (loadUserDataForCurrentUser rd x ci s)) = searchedUserData s"
  by (simp_all add: loadUserDataForCurrentUser_def split: option.splits sum.splits)

lemma loadUserData_frame:
  "account (fst (loadUserData isAddress rd x s)) = account s"
  "contract (fst (loadUserData isAddress rd x s)) = contract s"
  "provider (fst (loadUserData isAddress rd x s)) = provider s"
  "signer (fst (loadUserData isAddress rd x s)) = signer s"
  "loading (fst (loadUserData isAddress rd x s)) = loading s"
  "error (fst (loadUserData isAddress rd x s)) = error s"
  "success (fst (loadUserData isAddress rd x s)) = success s"
  "formData (fst (loadUserData isAddress rd x s)) = formData s"
  "searchAddress (fst (loadUserData isAddress rd x s)) = searchAddress s"
  "currentUserData (fst (loadUserData isAddress rd x s)) = currentUserData s"
  by (simp_all add: loadUserData_def split: sum.splits)

lemma searchUser_frame:
  "currentUserData (fst (searchUser isAddress rd s)) = currentUserData s"
  "success (fst (searchUser isAddress rd s)) = success s"
  "formData (fst (searchUser isAddress rd s)) = formData s"
  "account (fst (searchUser isAddress rd s)) = account s"
  "searchAddress (fst (searchUser isAddress rd s)) = searchAddress s"
  by (simp_all add: searchUser_def split_beta loadUserData_frame)

lemma connectWallet_frame:
  "searchedUserData (fst (connectWallet w rd s)) = searchedUserData s"
  "searchAddress (fst (connectWallet w rd s)) = searchAddress s"
  "formData (fst (connectWallet w rd s)) = formData s"
  "loading (fst (connectWallet w rd s)) = loading s"
  by (cases w; simp add: connectWallet_def split_beta loadUserDataForCurrentUser_frame)+

lemma addUserInfo_frame:
  "searchedUserData (fst (addUserInfo tx rd s)) = searchedUserData s"
  "searchAddress (fst (addUserInfo tx rd s)) = searchAddress s"
  "account (fst (addUserInfo tx rd s)) = account s"
  "contract (fst (addUserInfo tx rd s)) = contract s"
  by (cases tx; simp add: addUserInfo_def Let_def split_beta loadUserDataForCurrentUser_frame
        split: option.splits)+

lemma rejected_blank:
  assumes "contract s \<noteq> None" and "signer s \<noteq> None" and "formData s = blankNameForm"
  shows "addUserInfo tx rd s = (s\<lparr>error := js ''Name cannot be empty''\<rparr>, [])"
proof -
  from assms(1,2) obtain c sg where "contract s = Some c" "signer s = Some sg" by auto
  then show ?thesis
    by (simp add: addUserInfo_def assms(3) blankNameForm_eval)
qed

lemma submitAt_quietPage:
  "submitAt 0 quietPage
     = \<lparr>shown = aliceConnected\<lparr>formData := blankNameForm, success := [],
                   error := js ''Name cannot be empty''\<rparr>,
        timer = Some 5000\<rparr>"
  by (simp add: submitAt_def quietPage_def clearMessages_def rejected_blank aliceConnected_eval
      render_def)

lemma submitAt_again:
  "submitAt 2000 (submitAt 0 quietPage) = submitAt 0 quietPage"
  by (simp add: submitAt_quietPage)
     (simp add: submitAt_def rejected_blank aliceConnected_eval render_def)

section \<open>Submitting the form\<close>

text \<open>
  Claim C1. On a connected page whose form is valid (name, profession and bio not empty
  after trimming and deleting the zero-width code units, the age parsed by \<open>parseInt\<close>
  from 1 to 150), \<open>addUserInfo\<close> first calls the contract's \<open>addUserInfo\<close> with exactly
  the three sanitized texts and the parsed age. When the transaction is confirmed, the
  calls are that one, the wait for the receipt and one \<open>getUserInfo\<close> for the page's own
  account, and the profile shown is what that read returns: if the contract returns the
  record just written, the profile shown carries those four values.
\<close>

theorem submit_valid_upserts_sanitized:
  assumes "contract s \<noteq> None" and "signer s \<noteq> None"
    and "filter (\<lambda>c. \<not> isZeroWidth c) (trim (fname (formData s))) = n" and "n \<noteq> []"
    and "filter (\<lambda>c. \<not> isZeroWidth c) (trim (fprofession (formData s))) = p" and "p \<noteq> []"
    and "filter (\<lambda>c. \<not> isZeroWidth c) (trim (fbio (formData s))) = b" and "b \<noteq> []"
    and "parseInt (fage (formData s)) = Some a" and "1 \<le> a" and "a \<le> 150"
  shows "(\<exists>rest. snd (addUserInfo tx rd s) = CallAddUserInfo n a p b # rest)
       \<and> snd (addUserInfo Confirmed rd s)
           = [CallAddUserInfo n a p b, TxWait, CallGetUserInfo (account s)]
       \<and> currentUserData (fst (addUserInfo Confirmed rd s))
           = (case rd (account s) of Inl err \<Rightarrow> None | Inr userData \<Rightarrow> userInfoOf userData)
       \<and> (rd (account s) = Inr (n, nat a, p, b) \<longrightarrow>
            currentUserData (fst (addUserInfo Confirmed rd s))
              = Some \<lparr>name = n, age = nat a, profession = p, bio = b\<rparr>)"
proof -
  have small: "nat a < 2 ^ 53" using assms(11) by simp
  show ?thesis
    using assms Number_of_small [OF small]
    by (cases tx)
       (auto simp: addUserInfo_def sanitized_def loadUserDataForCurrentUser_def userInfoOf_def
          Let_def split: option.splits sum.splits prod.splits)
qed

theorem submit_valid_upserts_sanitized_witness:
  "snd (addUserInfo Confirmed adaRecords (aliceConnected\<lparr>formData := adaForm\<rparr>))
     = [CallAddUserInfo (js ''Ada'') 36 (js ''Engineer'') (js ''Writes programs''), TxWait,
        CallGetUserInfo alice]
   \<and> currentUserData (fst (addUserInfo Confirmed adaRecords (aliceConnected\<lparr>formData := adaForm\<rparr>)))
     = Some \<lparr>name = js ''Ada'', age = 36, profession = js ''Engineer'',
             bio = js ''Writes programs''\<rparr>"
proof -
  let ?s = "aliceConnected\<lparr>formData := adaForm\<rparr>"
  have h1: "contract ?s \<noteq> None" and h2: "signer ?s \<noteq> None"
    by (simp_all add: sample_eval)
  have n: "filter (\<lambda>c. \<not> isZeroWidth c) (trim (fname (formData ?s))) = js ''Ada''"
    and p: "filter (\<lambda>c. \<not> isZeroWidth c) (trim (fprofession (formData ?s))) = js ''Engineer''"
    and b: "filter (\<lambda>c. \<not> isZeroWidth c) (trim (fbio (formData ?s))) = js ''Writes programs''"
    and a: "parseInt (fage (formData ?s)) = Some 36"
    using adaForm_eval by (simp_all add: sample_eval sanitized_def)
  have ne: "js ''Ada'' \<noteq> []" "js ''Engineer'' \<noteq> []" "js ''Writes programs'' \<noteq> []"
    by simp_all
  have r: "adaRecords (account ?s) = Inr (js ''Ada'', nat 36, js ''Engineer'', js ''Writes programs'')"
    by (simp add: adaRecords_def)
  have acc: "account ?s = alice" by (simp add: sample_eval)
  from submit_valid_upserts_sanitized [OF h1 h2 n ne(1) p ne(2) b ne(3) a, of Confirmed adaRecords] r
  show ?thesis unfolding acc by auto
qed

text \<open>
  Claim C2. On a connected page \<open>addUserInfo\<close> makes no call at all exactly when the form is
  not valid in the words of the specification. Then it sets one of the four validation
  messages and changes nothing else, so the form keeps what was typed. When the form is
  valid, the first call is the contract's \<open>addUserInfo\<close> with the sanitized values.
\<close>

theorem submit_rejects_iff_invalid:
  assumes "contract s \<noteq> None" and "signer s \<noteq> None"
  shows "(snd (addUserInfo tx rd s) = [] \<longleftrightarrow> \<not> spec_valid (formData s))
       \<and> (\<not> spec_valid (formData s) \<longrightarrow>
            error (fst (addUserInfo tx rd s))
              \<in> {js ''Name cannot be empty'', js ''Profession cannot be empty'',
                  js ''Bio cannot be empty'', js ''Please enter a valid age between 1 and 150''}
            \<and> fst (addUserInfo tx rd s) = s\<lparr>error := error (fst (addUserInfo tx rd s))\<rparr>
            \<and> formData (fst (addUserInfo tx rd s)) = formData s)
       \<and> (spec_valid (formData s) \<longrightarrow>
            (\<exists>a rest. parseInt (fage (formData s)) = Some a \<and>
               snd (addUserInfo tx rd s)
                 = CallAddUserInfo (sanitized (fname (formData s))) a
                     (sanitized (fprofession (formData s))) (sanitized (fbio (formData s))) # rest))"
proof (cases "spec_valid (formData s)")
  case True
  then obtain a where a: "parseInt (fage (formData s)) = Some a" "1 \<le> a" "a \<le> 150"
    and nonempty: "sanitized (fname (formData s)) \<noteq> []" "sanitized (fprofession (formData s)) \<noteq> []"
      "sanitized (fbio (formData s)) \<noteq> []"
    by (rule spec_valid_parse)
  note eq = addUserInfo_valid [OF assms nonempty a, of tx rd]
  have "\<exists>rest. snd (addUserInfo tx rd s)
          = CallAddUserInfo (sanitized (fname (formData s))) a
              (sanitized (fprofession (formData s))) (sanitized (fbio (formData s))) # rest"
    unfolding eq by (cases tx) (simp_all add: Let_def split: prod.splits)
  with True a(1) show ?thesis by auto
next
  case False
  from addUserInfo_invalid [OF assms False, of tx rd]
  obtain m where m: "m \<in> {js ''Name cannot be empty'', js ''Profession cannot be empty'',
      js ''Bio cannot be empty'', js ''Please enter a valid age between 1 and 150''}"
    and eq: "addUserInfo tx rd s = (s\<lparr>error := m\<rparr>, [])"
    by blast
  from False m show ?thesis unfolding eq by simp
qed

theorem submit_rejects_iff_invalid_witness:
  "snd (addUserInfo Confirmed adaRecords (aliceConnected\<lparr>formData := blankNameForm\<rparr>)) = []
   \<and> formData (fst (addUserInfo Confirmed adaRecords (aliceConnected\<lparr>formData := blankNameForm\<rparr>)))
       = blankNameForm
   \<and> snd (addUserInfo Confirmed adaRecords (aliceConnected\<lparr>formData := adaForm\<rparr>)) \<noteq> []"
proof -
  let ?bad = "aliceConnected\<lparr>formData := blankNameForm\<rparr>"
  let ?good = "aliceConnected\<lparr>formData := adaForm\<rparr>"
  have b: "contract ?bad \<noteq> None" "signer ?bad \<noteq> None"
    and g: "contract ?good \<noteq> None" "signer ?good \<noteq> None"
    by (simp_all add: sample_eval)
  have inv: "\<not> spec_valid (formData ?bad)" and val: "spec_valid (formData ?good)"
    and f: "formData ?bad = blankNameForm"
    by (simp_all add: sample_eval spec_valid_adaForm not_spec_valid_blankNameForm)
  from submit_rejects_iff_invalid [OF b, of Confirmed adaRecords] inv
  have 1: "snd (addUserInfo Confirmed adaRecords ?bad) = []"
    and 2: "formData (fst (addUserInfo Confirmed adaRecords ?bad)) = formData ?bad"
    by blast+
  from submit_rejects_iff_invalid [OF g, of Confirmed adaRecords] val
  have 3: "snd (addUserInfo Confirmed adaRecords ?good) \<noteq> []" by blast
  from 1 2 3 f show ?thesis by simp
qed

text \<open>
  Claim C5. When the transaction of a valid form fails, at sending or while waiting for
  the receipt, \<open>addUserInfo\<close> sets the message that its \<open>catch\<close> chooses for the error,
  class by class and in this order: the code \<open>INVALID_ARGUMENT\<close> gives the text for
  invalid input; the code \<open>UNPREDICTABLE_GAS_LIMIT\<close> the text for a failed transaction; a
  message that contains \<open>user rejected\<close> the text for a rejection by the user; a message
  that contains \<open>insufficient funds\<close> the text for insufficient funds; any other error
  gives \<open>Failed to add user info: \<close> followed by the reason, or else by the message, or
  else by \<open>Unknown error\<close>. The message is never empty. Apart from it and the \<open>loading\<close>
  flag nothing changes: the form, both profiles shown and the success message stay, and
  no read is made.
\<close>

theorem failed_submit_commits_nothing:
  assumes "contract s \<noteq> None" and "signer s \<noteq> None" and "spec_valid (formData s)"
    and "tx = SendFails err \<or> tx = WaitFails err"
  shows "fst (addUserInfo tx rd s) = s\<lparr>loading := False, error := txErrorMessage err\<rparr>
       \<and> txErrorMessage err \<noteq> []
       \<and> (txErrorMessage err
            \<in> {js ''Invalid input data. Please check your entries and try again.'',
                js ''Transaction failed. Please check your inputs and try again.'',
                js ''Transaction was rejected by user'',
                js ''Insufficient funds to complete the transaction''}
          \<or> startsWith (txErrorMessage err) (js ''Failed to add user info: ''))
       \<and> formData (fst (addUserInfo tx rd s)) = formData s
       \<and> currentUserData (fst (addUserInfo tx rd s)) = currentUserData s
       \<and> searchedUserData (fst (addUserInfo tx rd s)) = searchedUserData s
       \<and> success (fst (addUserInfo tx rd s)) = success s
       \<and> (\<forall>a. CallGetUserInfo a \<notin> set (snd (addUserInfo tx rd s)))
       \<and> (code err = Some (js ''INVALID_ARGUMENT'') \<longrightarrow>
            error (fst (addUserInfo tx rd s))
              = js ''Invalid input data. Please check your entries and try again.'')
       \<and> (code err \<noteq> Some (js ''INVALID_ARGUMENT'')
            \<and> code err = Some (js ''UNPREDICTABLE_GAS_LIMIT'') \<longrightarrow>
            error (fst (addUserInfo tx rd s))
              = js ''Transaction failed. Please check your inputs and try again.'')
       \<and> (code err \<noteq> Some (js ''INVALID_ARGUMENT'')
            \<and> code err \<noteq> Some (js ''UNPREDICTABLE_GAS_LIMIT'')
            \<and> (\<exists>m. message err = Some m \<and> includes_str m (js ''user rejected'')) \<longrightarrow>
            error (fst (addUserInfo tx rd s)) = js ''Transaction was rejected by user'')
       \<and> (code err \<noteq> Some (js ''INVALID_ARGUMENT'')
            \<and> code err \<noteq> Some (js ''UNPREDICTABLE_GAS_LIMIT'')
            \<and> \<not> (\<exists>m. message err = Some m \<and> includes_str m (js ''user rejected''))
            \<and> (\<exists>m. message err = Some m \<and> includes_str m (js ''insufficient funds'')) \<longrightarrow>
            error (fst (addUserInfo tx rd s))
              = js ''Insufficient funds to complete the transaction'')
       \<and> (code err \<noteq> Some (js ''INVALID_ARGUMENT'')
            \<and> code err \<noteq> Some (js ''UNPREDICTABLE_GAS_LIMIT'')
            \<and> \<not> (\<exists>m. message err = Some m \<and> includes_str m (js ''user rejected''))
            \<and> \<not> (\<exists>m. message err = Some m \<and> includes_str m (js ''insufficient funds'')) \<longrightarrow>
            (\<forall>r. reason err = Some r \<and> r \<noteq> [] \<longrightarrow>
               error (fst (addUserInfo tx rd s)) = js ''Failed to add user info: '' @ r)
            \<and> (\<forall>m. (reason err = None \<or> reason err = Some []) \<and> message err = Some m \<and> m \<noteq> []
                 \<longrightarrow> error (fst (addUserInfo tx rd s)) = js ''Failed to add user info: '' @ m)
            \<and> ((reason err = None \<or> reason err = Some [])
                \<and> (message err = None \<or> message err = Some []) \<longrightarrow>
                 error (fst (addUserInfo tx rd s))
                   = js ''Failed to add user info: '' @ js ''Unknown error''))"
proof -
  from assms(3) obtain a where a: "parseInt (fage (formData s)) = Some a" "1 \<le> a" "a \<le> 150"
    and nonempty: "sanitized (fname (formData s)) \<noteq> []" "sanitized (fprofession (formData s)) \<noteq> []"
      "sanitized (fbio (formData s)) \<noteq> []"
    by (rule spec_valid_parse)
  note eq = addUserInfo_valid [OF assms(1,2) nonempty a, of tx rd]
  from assms(4)
  have st: "fst (addUserInfo tx rd s) = s\<lparr>loading := False, error := txErrorMessage err\<rparr>"
    and calls: "\<forall>a. CallGetUserInfo a \<notin> set (snd (addUserInfo tx rd s))"
    unfolding eq by (auto simp: Let_def)
  have frame: "fst (addUserInfo tx rd s) = s\<lparr>loading := False, error := txErrorMessage err\<rparr>
       \<and> txErrorMessage err \<noteq> []
       \<and> (txErrorMessage err
            \<in> {js ''Invalid input data. Please check your entries and try again.'',
                js ''Transaction failed. Please check your inputs and try again.'',
                js ''Transaction was rejected by user'',
                js ''Insufficient funds to complete the transaction''}
          \<or> startsWith (txErrorMessage err) (js ''Failed to add user info: ''))
       \<and> formData (fst (addUserInfo tx rd s)) = formData s
       \<and> currentUserData (fst (addUserInfo tx rd s)) = currentUserData s
       \<and> searchedUserData (fst (addUserInfo tx rd s)) = searchedUserData s
       \<and> success (fst (addUserInfo tx rd s)) = success s
       \<and> (\<forall>a. CallGetUserInfo a \<notin> set (snd (addUserInfo tx rd s)))"
    using txErrorMessage_nonempty [of err] txErrorMessage_classes [of err] calls
    by (simp add: st)
  have e: "error (fst (addUserInfo tx rd s)) = txErrorMessage err"
    by (simp add: st)
  show ?thesis
    using frame unfolding e
    by (intro conjI) (use txErrorMessage_by_class [of err] in blast)+
qed

theorem failed_submit_commits_nothing_witness:
  "fst (addUserInfo (WaitFails userRejected) adaRecords (aliceConnected\<lparr>formData := adaForm\<rparr>))
     = aliceConnected\<lparr>formData := adaForm, loading := False,
         error := js ''Transaction was rejected by user''\<rparr>
   \<and> formData (fst (addUserInfo (WaitFails userRejected) adaRecords
         (aliceConnected\<lparr>formData := adaForm\<rparr>))) = adaForm
   \<and> error (fst (addUserInfo (SendFails networkDown) adaRecords
         (aliceConnected\<lparr>formData := adaForm\<rparr>)))
       = js ''Failed to add user info: '' @ js ''could not detect network''"
proof -
  let ?s = "aliceConnected\<lparr>formData := adaForm\<rparr>"
  have h: "contract ?s \<noteq> None" "signer ?s \<noteq> None" "spec_valid (formData ?s)"
    by (simp_all add: sample_eval spec_valid_adaForm)
  have t: "WaitFails userRejected = SendFails userRejected
           \<or> WaitFails userRejected = WaitFails userRejected"
    and t': "SendFails networkDown = SendFails networkDown
           \<or> SendFails networkDown = WaitFails networkDown" by simp_all
  have cls: "code networkDown \<noteq> Some (js ''INVALID_ARGUMENT'')
      \<and> code networkDown \<noteq> Some (js ''UNPREDICTABLE_GAS_LIMIT'')
      \<and> \<not> (\<exists>m. message networkDown = Some m \<and> includes_str m (js ''user rejected''))
      \<and> \<not> (\<exists>m. message networkDown = Some m \<and> includes_str m (js ''insufficient funds''))"
    and msg: "(reason networkDown = None \<or> reason networkDown = Some [])
      \<and> message networkDown = Some (js ''could not detect network'')
      \<and> js ''could not detect network'' \<noteq> []"
    by (simp_all add: networkDown_def js_def)
  from failed_submit_commits_nothing [OF h t, of adaRecords]
  have 1: "fst (addUserInfo (WaitFails userRejected) adaRecords ?s)
      = aliceConnected\<lparr>formData := adaForm, loading := False,
          error := js ''Transaction was rejected by user''\<rparr>"
    and 2: "formData (fst (addUserInfo (WaitFails userRejected) adaRecords ?s)) = adaForm"
    by (simp_all add: userRejected_message sample_eval)
  from failed_submit_commits_nothing [OF h t', of adaRecords] cls msg
  have 3: "error (fst (addUserInfo (SendFails networkDown) adaRecords ?s))
      = js ''Failed to add user info: '' @ js ''could not detect network''"
    by blast
  from 1 2 3 show ?thesis by blast
qed

section \<open>The two profile views\<close>

text \<open>
  Claim C3. On a connected page, for every malformed address that the search field holds
  (the Search button is disabled while the field is empty), \<open>searchUser\<close> sets the
  message \<open>Please enter a valid Ethereum address\<close>, changes nothing else and makes no
  call: no read is attempted.
\<close>

theorem search_rejects_malformed_address:
  assumes "contract s \<noteq> None" and "searchAddress s \<noteq> []"
    and "\<not> isAddress (searchAddress s)"
  shows "fst (searchUser isAddress rd s)
           = s\<lparr>error := js ''Please enter a valid Ethereum address''\<rparr>
       \<and> error (fst (searchUser isAddress rd s)) = js ''Please enter a valid Ethereum address''
       \<and> snd (searchUser isAddress rd s) = []"
proof -
  from assms(1) obtain c where "contract s = Some c" by auto
  with assms(2,3) show ?thesis by (simp add: searchUser_def)
qed

theorem search_rejects_malformed_address_witness:
  "fst (searchUser hexAddress adaRecords (aliceConnected\<lparr>searchAddress := js ''abc''\<rparr>))
     = aliceConnected\<lparr>searchAddress := js ''abc'',
         error := js ''Please enter a valid Ethereum address''\<rparr>
   \<and> snd (searchUser hexAddress adaRecords (aliceConnected\<lparr>searchAddress := js ''abc''\<rparr>)) = []"
proof -
  let ?s = "aliceConnected\<lparr>searchAddress := js ''abc''\<rparr>"
  have c: "contract ?s \<noteq> None" and n: "searchAddress ?s \<noteq> []"
    and h: "\<not> hexAddress (searchAddress ?s)"
    by (simp_all add: aliceConnected_eval hexAddress_samples)
  from search_rejects_malformed_address
         [where isAddress = hexAddress and s = ?s and rd = adaRecords, OF c n h]
  show ?thesis by simp
qed

text \<open>
  Claim C4. On a connected page, when the read of an address returns a record, both
  loaders show no profile if the record's name is empty and otherwise the record itself:
  name, profession and bio as returned, the age as \<open>Number\<close> of the returned age, which
  is that age below \<open>2^53\<close>. Neither loader touches the error message, and a search for a
  well-formed address leaves it empty and makes the one read.
\<close>

theorem load_maps_response:
  assumes "contract s \<noteq> None" and "rd x = Inr (n, a, p, b)"
  shows "currentUserData (fst (loadUserDataForCurrentUser rd x ci s))
           = (if n = [] then None
              else Some \<lparr>name = n, age = Number_of a, profession = p, bio = b\<rparr>)
       \<and> error (fst (loadUserDataForCurrentUser rd x ci s)) = error s
       \<and> (isAddress x \<longrightarrow>
            searchedUserData (fst (loadUserData isAddress rd x s))
              = (if n = [] then None
                 else Some \<lparr>name = n, age = Number_of a, profession = p, bio = b\<rparr>)
            \<and> error (fst (loadUserData isAddress rd x s)) = error s)
       \<and> (isAddress x \<and> x \<noteq> [] \<and> searchAddress s = x \<longrightarrow>
            searchedUserData (fst (searchUser isAddress rd s))
              = (if n = [] then None
                 else Some \<lparr>name = n, age = Number_of a, profession = p, bio = b\<rparr>)
            \<and> error (fst (searchUser isAddress rd s)) = []
            \<and> snd (searchUser isAddress rd s) = [CallGetUserInfo x])
       \<and> (a < 2 ^ 53 \<longrightarrow> Number_of a = a)"
proof -
  from assms(1) obtain c where c: "contract s = Some c" by auto
  show ?thesis
    using assms(2)
    by (simp add: c loadUserDataForCurrentUser_def loadUserData_def searchUser_def
        userInfoOf_def Number_of_small split: option.splits)
qed

theorem load_maps_response_witness:
  "searchedUserData (fst (searchUser hexAddress adaRecords (aliceConnected\<lparr>searchAddress := bob\<rparr>)))
     = Some \<lparr>name = js ''Ada'', age = 36, profession = js ''Engineer'',
             bio = js ''Writes programs''\<rparr>
   \<and> searchedUserData (fst (searchUser hexAddress noRecords (aliceConnected\<lparr>searchAddress := bob\<rparr>)))
     = None
   \<and> error (fst (searchUser hexAddress noRecords (aliceConnected\<lparr>searchAddress := bob\<rparr>))) = []"
proof -
  let ?s = "aliceConnected\<lparr>searchAddress := bob\<rparr>"
  have c: "contract ?s \<noteq> None" by (simp add: aliceConnected_eval)
  have r1: "adaRecords bob = Inr (js ''Ada'', 36, js ''Engineer'', js ''Writes programs'')"
    and r2: "noRecords bob = Inr ([], 0, [], [])"
    by (simp_all add: adaRecords_def noRecords_def)
  have w: "hexAddress bob \<and> bob \<noteq> [] \<and> searchAddress ?s = bob"
    by (simp add: hexAddress_samples bob_nonempty)
  have n: "(36::nat) < 2 ^ 53" by simp
  from load_maps_response [where s = ?s and rd = adaRecords and x = bob and ci = None
        and isAddress = hexAddress, OF c r1]
    load_maps_response [where s = ?s and rd = noRecords and x = bob and ci = None
        and isAddress = hexAddress, OF c r2] w n
  show ?thesis by simp
qed

text \<open>
  Claim C8, as the specification states it, fails for the error state: the page has one
  \<open>error\<close> cell for both views. With a form typed in, a search for \<open>abc\<close> sets the
  message of the search, and the submit that follows, which refreshes the own profile,
  clears it.
\<close>

theorem shared_error_cell_counterexample:
  "error (aliceConnected\<lparr>formData := adaForm, searchAddress := js ''abc''\<rparr>) = []
   \<and> error (fst (searchUser hexAddress noRecords
         (aliceConnected\<lparr>formData := adaForm, searchAddress := js ''abc''\<rparr>)))
       = js ''Please enter a valid Ethereum address''
   \<and> error (fst (addUserInfo Confirmed adaRecords
         (fst (searchUser hexAddress noRecords
            (aliceConnected\<lparr>formData := adaForm, searchAddress := js ''abc''\<rparr>)))))
       = []"
proof -
  let ?s0 = "aliceConnected\<lparr>formData := adaForm, searchAddress := js ''abc''\<rparr>"
  let ?s1 = "?s0\<lparr>error := js ''Please enter a valid Ethereum address''\<rparr>"
  have 0: "error ?s0 = []" by (simp add: aliceConnected_eval)
  have 1: "fst (searchUser hexAddress noRecords ?s0) = ?s1"
    by (simp add: searchUser_def aliceConnected_eval hexAddress_samples)
  have c: "contract ?s1 \<noteq> None" "signer ?s1 \<noteq> None"
    by (simp_all add: aliceConnected_eval)
  have f: "sanitized (fname (formData ?s1)) \<noteq> []"
    "sanitized (fprofession (formData ?s1)) \<noteq> []"
    "sanitized (fbio (formData ?s1)) \<noteq> []"
    and a: "parseInt (fage (formData ?s1)) = Some 36" "(1::int) \<le> 36" "(36::int) \<le> 150"
    by (simp_all add: adaForm_eval)
  have 2: "error (fst (addUserInfo Confirmed adaRecords ?s1)) = []"
    unfolding addUserInfo_valid [OF c f a, of Confirmed adaRecords]
    by (simp add: Let_def split_beta loadUserDataForCurrentUser_frame)
  from 0 1 2 show ?thesis by simp
qed

text \<open>
  Claim C8, amended. The results of the two views never interfere: the loader of the own
  profile, \<open>connectWallet\<close> and \<open>addUserInfo\<close> leave the profile found by the search and
  the search address as they are, and the search and its loader leave the own profile as
  it is. Neither loader sets or clears a message. The error state is not kept per view:
  there is one \<open>error\<close> cell, and the handlers write it. On a connected page with a search
  field that is not empty, \<open>searchUser\<close> leaves it empty for a well-formed address and
  sets the message of the search for a malformed one; a granted \<open>connectWallet\<close> and a
  confirmed \<open>addUserInfo\<close> of a valid form, both of which refresh the own profile, leave
  it empty whatever it held.
\<close>

theorem viewer_results_do_not_interfere:
  "searchedUserData (fst (loadUserDataForCurrentUser rd x ci s)) = searchedUserData s
   \<and> searchAddress (fst (loadUserDataForCurrentUser rd x ci s)) = searchAddress s
   \<and> error (fst (loadUserDataForCurrentUser rd x ci s)) = error s
   \<and> success (fst (loadUserDataForCurrentUser rd x ci s)) = success s
   \<and> searchedUserData (fst (connectWallet w rd s)) = searchedUserData s
   \<and> searchAddress (fst (connectWallet w rd s)) = searchAddress s
   \<and> searchedUserData (fst (addUserInfo tx rd s)) = searchedUserData s
   \<and> searchAddress (fst (addUserInfo tx rd s)) = searchAddress s
   \<and> currentUserData (fst (searchUser isAddress rd s)) = currentUserData s
   \<and> currentUserData (fst (loadUserData isAddress rd x s)) = currentUserData s
   \<and> error (fst (loadUserData isAddress rd x s)) = error s
   \<and> success (fst (loadUserData isAddress rd x s)) = success s
   \<and> (contract s \<noteq> None \<and> searchAddress s \<noteq> [] \<longrightarrow>
        error (fst (searchUser isAddress rd s))
          = (if isAddress (searchAddress s) then []
             else js ''Please enter a valid Ethereum address''))
   \<and> error (fst (connectWallet (Granted account0 sg) rd s)) = []
   \<and> (contract s \<noteq> None \<and> signer s \<noteq> None \<and> spec_valid (formData s) \<longrightarrow>
        error (fst (addUserInfo Confirmed rd s)) = [])"
proof -
  have frames: "searchedUserData (fst (loadUserDataForCurrentUser rd x ci s)) = searchedUserData s
   \<and> searchAddress (fst (loadUserDataForCurrentUser rd x ci s)) = searchAddress s
   \<and> error (fst (loadUserDataForCurrentUser rd x ci s)) = error s
   \<and> success (fst (loadUserDataForCurrentUser rd x ci s)) = success s
   \<and> searchedUserData (fst (connectWallet w rd s)) = searchedUserData s
   \<and> searchAddress (fst (connectWallet w rd s)) = searchAddress s
   \<and> searchedUserData (fst (addUserInfo tx rd s)) = searchedUserData s
   \<and> searchAddress (fst (addUserInfo tx rd s)) = searchAddress s
   \<and> currentUserData (fst (searchUser isAddress rd s)) = currentUserData s
   \<and> currentUserData (fst (loadUserData isAddress rd x s)) = currentUserData s
   \<and> error (fst (loadUserData isAddress rd x s)) = error s
   \<and> success (fst (loadUserData isAddress rd x s)) = success s"
    by (simp add: loadUserDataForCurrentUser_frame loadUserData_frame searchUser_frame
        connectWallet_frame addUserInfo_frame)
  have search: "contract s \<noteq> None \<and> searchAddress s \<noteq> [] \<longrightarrow>
        error (fst (searchUser isAddress rd s))
          = (if isAddress (searchAddress s) then []
             else js ''Please enter a valid Ethereum address'')"
  proof (intro impI, elim conjE)
    assume "contract s \<noteq> None" and n: "searchAddress s \<noteq> []"
    then obtain c where "contract s = Some c" by auto
    with n show "error (fst (searchUser isAddress rd s))
          = (if isAddress (searchAddress s) then []
             else js ''Please enter a valid Ethereum address'')"
      by (simp add: searchUser_def split_beta loadUserData_frame)
  qed
  have conn: "error (fst (connectWallet (Granted account0 sg) rd s)) = []"
    by (simp add: connectWallet_def split_beta loadUserDataForCurrentUser_frame)
  have submit: "contract s \<noteq> None \<and> signer s \<noteq> None \<and> spec_valid (formData s) \<longrightarrow>
        error (fst (addUserInfo Confirmed rd s)) = []"
  proof (intro impI, elim conjE)
    assume c: "contract s \<noteq> None" "signer s \<noteq> None" and v: "spec_valid (formData s)"
    from v obtain a where a: "parseInt (fage (formData s)) = Some a" "1 \<le> a" "a \<le> 150"
      and nonempty: "sanitized (fname (formData s)) \<noteq> []"
        "sanitized (fprofession (formData s)) \<noteq> []" "sanitized (fbio (formData s)) \<noteq> []"
      by (rule spec_valid_parse)
    show "error (fst (addUserInfo Confirmed rd s)) = []"
      unfolding addUserInfo_valid [OF c nonempty a, of Confirmed rd]
      by (simp add: Let_def split_beta loadUserDataForCurrentUser_frame)
  qed
  from frames search conn submit show ?thesis by blast
qed

theorem viewer_results_do_not_interfere_witness:
  "currentUserData (fst (searchUser hexAddress noRecords (aliceConnected\<lparr>searchAddress := js ''abc''\<rparr>)))
     = None
   \<and> error (fst (searchUser hexAddress noRecords (aliceConnected\<lparr>searchAddress := js ''abc''\<rparr>)))
     = js ''Please enter a valid Ethereum address''
   \<and> error (fst (addUserInfo Confirmed adaRecords (aliceConnected\<lparr>formData := adaForm\<rparr>))) = []"
proof -
  let ?s = "aliceConnected\<lparr>searchAddress := js ''abc''\<rparr>"
  let ?t = "aliceConnected\<lparr>formData := adaForm\<rparr>"
  have c: "contract ?s \<noteq> None \<and> searchAddress ?s \<noteq> []"
    and h: "\<not> hexAddress (searchAddress ?s)"
    and cur: "currentUserData ?s = None"
    by (simp_all add: aliceConnected_eval hexAddress_samples)
  have v: "contract ?t \<noteq> None \<and> signer ?t \<noteq> None \<and> spec_valid (formData ?t)"
    by (simp add: sample_eval spec_valid_adaForm)
  from viewer_results_do_not_interfere [where isAddress = hexAddress and s = ?s and rd = noRecords]
    c h cur
  have 1: "currentUserData (fst (searchUser hexAddress noRecords ?s)) = None"
    and 2: "error (fst (searchUser hexAddress noRecords ?s))
              = js ''Please enter a valid Ethereum address''"
    by simp_all
  from viewer_results_do_not_interfere [where s = ?t and rd = adaRecords] v
  have 3: "error (fst (addUserInfo Confirmed adaRecords ?t)) = []" by blast
  from 1 2 3 show ?thesis by blast
qed

text \<open>
  Claim C10. On a connected page a read that throws has the same outcome as a read that
  returns a record with an empty name, in both loaders and in the search: the state
  afterwards and the calls made are equal. The profile concerned is set to \<open>null\<close>, and
  neither loader sets a message.
\<close>

theorem failed_read_shows_absent:
  assumes "contract s \<noteq> None" and "rd x = Inl err" and "rd' x = Inr ([], a, p, b)"
  shows "fst (loadUserDataForCurrentUser rd x ci s) = s\<lparr>currentUserData := None\<rparr>
       \<and> loadUserDataForCurrentUser rd x ci s = loadUserDataForCurrentUser rd' x ci s
       \<and> error (fst (loadUserDataForCurrentUser rd x ci s)) = error s
       \<and> success (fst (loadUserDataForCurrentUser rd x ci s)) = success s
       \<and> (isAddress x \<longrightarrow>
            fst (loadUserData isAddress rd x s) = s\<lparr>searchedUserData := None\<rparr>
            \<and> loadUserData isAddress rd x s = loadUserData isAddress rd' x s
            \<and> error (fst (loadUserData isAddress rd x s)) = error s
            \<and> success (fst (loadUserData isAddress rd x s)) = success s)
       \<and> (isAddress x \<and> x \<noteq> [] \<and> searchAddress s = x \<longrightarrow>
            searchUser isAddress rd s = searchUser isAddress rd' s
            \<and> searchedUserData (fst (searchUser isAddress rd s)) = None
            \<and> error (fst (searchUser isAddress rd s)) = [])"
proof -
  from assms(1) obtain c where c: "contract s = Some c" by auto
  show ?thesis
    using assms(2,3)
    by (simp add: c loadUserDataForCurrentUser_def loadUserData_def searchUser_def
        userInfoOf_def split: option.splits)
qed

theorem failed_read_shows_absent_witness:
  "fst (loadUserDataForCurrentUser readThrows alice None aliceConnected)
     = aliceConnected\<lparr>currentUserData := None\<rparr>
   \<and> searchUser hexAddress readThrows (aliceConnected\<lparr>searchAddress := bob\<rparr>)
     = searchUser hexAddress noRecords (aliceConnected\<lparr>searchAddress := bob\<rparr>)
   \<and> error (fst (searchUser hexAddress readThrows (aliceConnected\<lparr>searchAddress := bob\<rparr>))) = []"
proof -
  let ?s = "aliceConnected\<lparr>searchAddress := bob\<rparr>"
  have c: "contract aliceConnected \<noteq> None" and c': "contract ?s \<noteq> None"
    by (simp_all add: aliceConnected_eval)
  have r: "readThrows alice = Inl networkDown" "readThrows bob = Inl networkDown"
    and r': "noRecords alice = Inr ([], 0, [], [])" "noRecords bob = Inr ([], 0, [], [])"
    by (simp_all add: readThrows_def noRecords_def)
  have w: "hexAddress bob \<and> bob \<noteq> [] \<and> searchAddress ?s = bob"
    by (simp add: hexAddress_samples bob_nonempty)
  from failed_read_shows_absent [where s = aliceConnected and rd = readThrows and rd' = noRecords
        and x = alice and ci = None and isAddress = hexAddress, OF c r(1) r'(1)]
  have 1: "fst (loadUserDataForCurrentUser readThrows alice None aliceConnected)
             = aliceConnected\<lparr>currentUserData := None\<rparr>" by blast
  from failed_read_shows_absent [where s = ?s and rd = readThrows and rd' = noRecords
        and x = bob and ci = None and isAddress = hexAddress, OF c' r(2) r'(2)] w
  have 2: "searchUser hexAddress readThrows ?s = searchUser hexAddress noRecords ?s"
    and 3: "error (fst (searchUser hexAddress readThrows ?s)) = []" by blast+
  from 1 2 3 show ?thesis by blast
qed

section \<open>Disconnecting\<close>

text \<open>
  Claim C9. \<open>disconnectWallet\<close> has no failing path and makes no call. Afterwards the page
  is the initial page except for the \<open>loading\<close> flag, which it does not touch, and the
  message \<open>Wallet disconnected successfully!\<close>: account, contract, signer and provider,
  both profiles, the search address and the form are cleared. After a following
  \<open>connectWallet\<close> the search result, the search address and the form are still empty;
  the account and the handles are those the wallet grants and the own profile is what
  the read for that account returns, or all of them are empty when the wallet refuses.
\<close>

theorem disconnect_clears_session:
  "snd (disconnectWallet s) = []
   \<and> fst (disconnectWallet s)
       = initial\<lparr>loading := loading s, success := js ''Wallet disconnected successfully!''\<rparr>
   \<and> account (fst (disconnectWallet s)) = []
   \<and> contract (fst (disconnectWallet s)) = None
   \<and> signer (fst (disconnectWallet s)) = None
   \<and> provider (fst (disconnectWallet s)) = None
   \<and> currentUserData (fst (disconnectWallet s)) = None
   \<and> searchedUserData (fst (disconnectWallet s)) = None
   \<and> searchAddress (fst (disconnectWallet s)) = []
   \<and> formData (fst (disconnectWallet s)) = emptyForm
   \<and> error (fst (disconnectWallet s)) = []
   \<and> searchedUserData (fst (connectWallet w rd (fst (disconnectWallet s)))) = None
   \<and> searchAddress (fst (connectWallet w rd (fst (disconnectWallet s)))) = []
   \<and> formData (fst (connectWallet w rd (fst (disconnectWallet s)))) = emptyForm
   \<and> (case w of
         Granted account0 sg \<Rightarrow>
           account (fst (connectWallet w rd (fst (disconnectWallet s)))) = account0
           \<and> signer (fst (connectWallet w rd (fst (disconnectWallet s)))) = Some sg
           \<and> contract (fst (connectWallet w rd (fst (disconnectWallet s)))) = Some (Contract sg)
           \<and> currentUserData (fst (connectWallet w rd (fst (disconnectWallet s))))
               = (case rd account0 of Inl err \<Rightarrow> None | Inr userData \<Rightarrow> userInfoOf userData)
       | _ \<Rightarrow>
           account (fst (connectWallet w rd (fst (disconnectWallet s)))) = []
           \<and> signer (fst (connectWallet w rd (fst (disconnectWallet s)))) = None
           \<and> contract (fst (connectWallet w rd (fst (disconnectWallet s)))) = None
           \<and> currentUserData (fst (connectWallet w rd (fst (disconnectWallet s)))) = None)"
proof -
  have d: "disconnectWallet s
      = (initial\<lparr>loading := loading s, success := js ''Wallet disconnected successfully!''\<rparr>, [])"
    by (simp add: disconnectWallet_def initial_def)
  show ?thesis
    unfolding d
    by (cases w)
       (simp_all add: initial_def connectWallet_def loadUserDataForCurrentUser_def split_beta
          split: sum.splits)
qed

section \<open>Status messages\<close>

text \<open>
  Claim C7, as the specification states it, fails: the page keeps the error message and
  the success message in two cells and shows both. After connecting, a submit with a
  blank name sets the error message while the success message of the connection is still
  there.
\<close>

theorem both_messages_live_counterexample:
  "error (run hexAddress [ConnectWallet (Granted alice (JsonRpcSigner alice)) noRecords,
                          ChangeName (js '' ''), AddUserInfo Confirmed noRecords])
     = js ''Name cannot be empty''
   \<and> success (run hexAddress [ConnectWallet (Granted alice (JsonRpcSigner alice)) noRecords,
                          ChangeName (js '' ''), AddUserInfo Confirmed noRecords])
     = js ''Wallet connected successfully!''"
proof -
  have r: "run hexAddress [ConnectWallet (Granted alice (JsonRpcSigner alice)) noRecords,
                          ChangeName (js '' ''), AddUserInfo Confirmed noRecords]
         = fst (addUserInfo Confirmed noRecords
                  (aliceConnected\<lparr>formData := emptyForm\<lparr>fname := js '' ''\<rparr>\<rparr>))"
    by (simp add: run_def step_def aliceConnected_def [symmetric] aliceConnected_eval)
  have b: "sanitized (js '' '') = []"
    by (simp add: js_def sanitized_def trim_def isWhiteSpace_def)
  show ?thesis
    unfolding r
    by (simp add: addUserInfo_def sample_eval aliceConnected_eval b)
qed

text \<open>
  Claim C7, amended. There is one cell for the error message and one for the success
  message, so a new message replaces the previous one of its kind. Every event that
  changes the success message leaves the error message empty: a new success message
  supersedes a live error. An event that sets a new error message leaves the success
  message as it was, so one error and one success message can be live together.
\<close>

theorem message_slots:
  "(success (step isAddress s e) \<noteq> success s \<longrightarrow> error (step isAddress s e) = [])
   \<and> (error (step isAddress s e) \<noteq> [] \<and> error (step isAddress s e) \<noteq> error s
        \<longrightarrow> success (step isAddress s e) = success s)"
proof (cases e)
  case (ConnectWallet w rd)
  then show ?thesis
    by (cases w) (simp_all add: step_def connectWallet_def split_beta
        loadUserDataForCurrentUser_frame)
next
  case (AddUserInfo tx rd)
  then show ?thesis
    by (cases tx)
       (simp_all add: step_def addUserInfo_def Let_def split_beta
          loadUserDataForCurrentUser_frame split: option.splits)
next
  case (SearchUser rd)
  then show ?thesis
    by (simp add: step_def searchUser_def split_beta loadUserData_frame)
qed (simp_all add: step_def disconnectWallet_def clearMessages_def)

theorem message_slots_witness:
  "error (step hexAddress aliceConnected DisconnectWallet) = []
   \<and> success (step hexAddress (aliceConnected\<lparr>searchAddress := js ''abc''\<rparr>) (SearchUser noRecords))
       = js ''Wallet connected successfully!''"
proof -
  let ?s = "aliceConnected\<lparr>searchAddress := js ''abc''\<rparr>"
  have a: "success (step hexAddress aliceConnected DisconnectWallet) \<noteq> success aliceConnected"
    by (simp add: step_def disconnectWallet_def aliceConnected_eval js_def)
  have b: "error (step hexAddress ?s (SearchUser noRecords)) \<noteq> []
           \<and> error (step hexAddress ?s (SearchUser noRecords)) \<noteq> error ?s"
    by (simp add: step_def searchUser_def aliceConnected_eval hexAddress_samples)
  from message_slots [of hexAddress aliceConnected DisconnectWallet] a
    message_slots [of hexAddress ?s "SearchUser noRecords"] b
  show ?thesis by (simp add: aliceConnected_eval)
qed

text \<open>
  Claim C6, as the specification states it, fails when the message set again is the one
  already shown: a blank name is rejected at time 0 and again 2000 ms later; the second
  \<open>setError\<close> leaves \<open>error\<close> and \<open>success\<close> as they were, the effect does not run, the
  timer still fires at 5000 ms, not at 7000 ms, and the message is cleared then.
\<close>

theorem same_message_countdown_counterexample:
  "timer (submitAt 0 quietPage) = Some 5000
   \<and> error (shown (submitAt 2000 (submitAt 0 quietPage))) = js ''Name cannot be empty''
   \<and> timer (submitAt 2000 (submitAt 0 quietPage)) \<noteq> Some 7000
   \<and> error (shown (elapse 5000 (submitAt 2000 (submitAt 0 quietPage)))) = []"
  by (simp add: submitAt_again) (simp add: submitAt_quietPage elapse_def render_def clearMessages_def)

text \<open>
  Claim C6, amended. A render at time \<open>T\<close> that changes \<open>error\<close> or \<open>success\<close> and leaves
  one of them not empty starts a timer for \<open>T + 5000\<close> ms; until then nothing is cleared,
  and at that time both messages are cleared and no timer is left. A render at
  \<open>T + 2000\<close> that changes \<open>error\<close> or \<open>success\<close> again and leaves one of them not empty
  cancels the timer and starts one for \<open>T + 7000\<close>; a render at \<open>T + 2000\<close> that leaves both
  texts as they are does not restart it, and the timer stays at \<open>T + 5000\<close>.
\<close>

theorem message_countdown:
  assumes "error s1 \<noteq> error (shown p) \<or> success s1 \<noteq> success (shown p)"
    and "error s1 \<noteq> [] \<or> success s1 \<noteq> []"
  shows "timer (render T p s1) = Some (T + 5000)
       \<and> (\<forall>t < T + 5000. elapse t (render T p s1) = render T p s1)
       \<and> error (shown (elapse (T + 5000) (render T p s1))) = []
       \<and> success (shown (elapse (T + 5000) (render T p s1))) = []
       \<and> timer (elapse (T + 5000) (render T p s1)) = None
       \<and> ((error s2 \<noteq> error s1 \<or> success s2 \<noteq> success s1) \<and> (error s2 \<noteq> [] \<or> success s2 \<noteq> [])
            \<longrightarrow> timer (render (T + 2000) (render T p s1) s2) = Some (T + 7000))
       \<and> (error s2 = error s1 \<and> success s2 = success s1
            \<longrightarrow> timer (render (T + 2000) (render T p s1) s2) = Some (T + 5000))"
proof -
  have r: "render T p s1 = \<lparr>shown = s1, timer = Some (T + 5000)\<rparr>"
    using assms by (auto simp: render_def)
  show ?thesis
    unfolding r using assms(2)
    by (auto simp: elapse_def render_def clearMessages_def)
qed

theorem message_countdown_witness:
  "timer (render 1000 quietPage (fst (disconnectWallet (shown quietPage)))) = Some 6000
   \<and> success (shown (elapse 6000 (render 1000 quietPage (fst (disconnectWallet (shown quietPage)))))) = []
   \<and> timer (render 3000 (render 1000 quietPage (fst (disconnectWallet (shown quietPage))))
        (fst (connectWallet NoEthereum noRecords (fst (disconnectWallet (shown quietPage))))))
       = Some 8000"
proof -
  let ?s1 = "fst (disconnectWallet (shown quietPage))"
  let ?s2 = "fst (connectWallet NoEthereum noRecords ?s1)"
  have a: "error ?s1 \<noteq> error (shown quietPage) \<or> success ?s1 \<noteq> success (shown quietPage)"
    and b: "error ?s1 \<noteq> [] \<or> success ?s1 \<noteq> []"
    by (simp_all add: disconnectWallet_def quietPage_def clearMessages_def)
  have c: "(error ?s2 \<noteq> error ?s1 \<or> success ?s2 \<noteq> success ?s1) \<and> (error ?s2 \<noteq> [] \<or> success ?s2 \<noteq> [])"
    by (simp add: disconnectWallet_def connectWallet_def)
  from message_countdown [where p = quietPage and ?s1.0 = ?s1 and ?s2.0 = ?s2 and T = 1000, OF a b] c
  show ?thesis by simp
qed

end
